theory Spec2Isabelle
  imports Complex_Main
begin

section \<open>Configuration and errors\<close>

text \<open>
  The fields of the process-wide \<open>config\<close> record (main.go, \<open>type Config\<close>) that the
  solving loop and the submission cycle branch on. \<open>MaxCaptchaRetries\<close> is a Go \<open>int\<close>
  (it may be negative: \<open>validateConfig\<close> only replaces 0 by 5), \<open>CaptchaTimeout\<close> is a
  \<open>float64\<close> read from JSON, hence a finite number, modelled as a real.
\<close>

record Config =
  UseProxy :: bool
  UseCloudflareEmail :: bool
  UseTwoCaptcha :: bool
  MaxCaptchaRetries :: int
  CaptchaTimeout :: real

text \<open>
  The last two statements of \<open>validateConfig\<close>:
  \<^verbatim>\<open>
  if config.MaxCaptchaRetries == 0 { config.MaxCaptchaRetries = 5 }
  if config.CaptchaTimeout == 0 { config.CaptchaTimeout = 120 }
  \<close>
\<close>

definition applyDefaults :: "Config \<Rightarrow> Config" where
  "applyDefaults cfg =
     (let cfg1 = (if MaxCaptchaRetries cfg = 0 then cfg\<lparr>MaxCaptchaRetries := 5\<rparr> else cfg)
      in if CaptchaTimeout cfg1 = 0 then cfg1\<lparr>CaptchaTimeout := 120\<rparr> else cfg1)"

text \<open>
  Go \<open>error\<close> values, one constructor per place where main.go creates or forwards one.
  \<^item> \<open>TransportError\<close>: the \<open>err\<close> of \<open>http.Post\<close> or \<open>client.Do\<close>;
  \<^item> \<open>DecodeError\<close>: the \<open>err\<close> of \<open>json.NewDecoder(resp.Body).Decode\<close>;
  \<^item> \<open>CaptchaTimedOut t\<close>: "captcha solving timed out after t seconds";
  \<^item> \<open>CaptchaFailedAfter n\<close>: "captcha solving failed after n attempts";
  \<^item> \<open>PromoSubmissionFailed c\<close>: "promo submission failed with status code: c";
  \<^item> \<open>AdditionalSubmissionFailed c\<close>: "additional promo submission failed with status code: c";
  \<^item> the last three wrap the error of a step of \<open>submitEntry\<close> (\<open>fmt.Errorf("...: %v", err)\<close>).
\<close>

datatype error =
    TransportError
  | DecodeError
  | ProxyURLError
  | NewRequestError
  | ReadBodyError
  | AliasError
  | CaptchaTimedOut real
  | CaptchaFailedAfter int
  | PromoSubmissionFailed int
  | AdditionalSubmissionFailed int
  | ErrorCreatingEmailAlias error
  | ErrorSolvingCaptcha error
  | ErrorSubmittingPromoEntry error

section \<open>The CAPTCHA providers\<close>

text \<open>
  \<open>eZCaptchaResult\<close> and \<open>twoCaptchaResult\<close> are the same struct:
  \<open>Status\<close> and \<open>Solution.GRecaptchaResponse\<close>.
\<close>

record captchaResult =
  Status :: string
  GRecaptchaResponse :: string

type_synonym eZCaptchaResult = captchaResult
type_synonym twoCaptchaResult = captchaResult

text \<open>
  What the remote side answers to \<open>POST /createTask\<close>: the post fails, the body does not
  decode into \<open>struct { TaskID }\<close>, or it decodes and leaves a value in \<open>TaskID\<close>. Decoding
  a body without a \<open>taskId\<close> key succeeds and leaves the zero value (\<open>""\<close> for provider
  EZ-Captcha, \<open>0\<close> for 2Captcha). The identifier is a string for EZ-Captcha and an int for
  2Captcha.
\<close>

datatype 'id create_reply = CreatePostFailed | CreateDecodeFailed | CreateDecoded 'id

text \<open>What the remote side answers to one \<open>POST /getTaskResult\<close>.\<close>

datatype poll_reply = PollPostFailed | PollDecodeFailed | PollDecoded captchaResult

text \<open>
  The outside world as one solve sees it: the answer to \<open>createTask\<close>, the answer to the
  \<open>i\<close>-th \<open>getTaskResult\<close> call for a task identifier (calls counted from 0), and
  \<open>since i\<close>, the value \<open>time.Since(startTime).Seconds()\<close> has in loop iteration \<open>i\<close>.
\<close>

record 'id provider =
  createTask :: "'id create_reply"
  getTaskResult :: "'id \<Rightarrow> nat \<Rightarrow> poll_reply"
  since :: "nat \<Rightarrow> real"

text \<open>
  \<open>getEZCaptchaTaskResult\<close> and \<open>get2CaptchaTaskResult\<close>: post, decode, return the result
  or the error. (\<open>json.Marshal\<close> of a map of strings and ints does not fail.)
\<close>

definition getEZCaptchaTaskResult :: "string provider \<Rightarrow> string \<Rightarrow> nat \<Rightarrow> error + eZCaptchaResult" where
  "getEZCaptchaTaskResult p taskID i =
     (case getTaskResult p taskID i of
        PollPostFailed \<Rightarrow> Inl TransportError
      | PollDecodeFailed \<Rightarrow> Inl DecodeError
      | PollDecoded result \<Rightarrow> Inr result)"

definition get2CaptchaTaskResult :: "int provider \<Rightarrow> int \<Rightarrow> nat \<Rightarrow> error + twoCaptchaResult" where
  "get2CaptchaTaskResult p taskID i =
     (case getTaskResult p taskID i of
        PollPostFailed \<Rightarrow> Inl TransportError
      | PollDecodeFailed \<Rightarrow> Inl DecodeError
      | PollDecoded result \<Rightarrow> Inr result)"

text \<open>
  The polling loop, the same text in \<open>solveCaptchaWithEZCaptcha\<close> (lines 373-392) and in
  \<open>solveCaptchaWith2Captcha\<close> (lines 449-468) but for the call that fetches the result:
  \<^verbatim>\<open>
  for i := 0; i < config.MaxCaptchaRetries; i++ {
      time.Sleep(10 * time.Second)
      result, err := getTaskResult(createTaskResult.TaskID)
      if err != nil { continue }
      if result.Status == "ready" { return result.Solution.GRecaptchaResponse, nil }
      if time.Since(startTime).Seconds() > config.CaptchaTimeout { return "", timed out }
  }
  return "", failed after MaxCaptchaRetries attempts
  \<close>
  \<open>poll i\<close> is the call made in iteration \<open>i\<close>; \<open>calls\<close> counts the calls made so far and
  is returned with the result. The counter \<open>i\<close> stays below \<open>MaxCaptchaRetries\<close>, so Go's
  64-bit \<open>int\<close> never wraps here. The sleep and the debug output leave no trace in the
  result; the time they take shows in \<open>elapsed\<close>.
\<close>

function pollLoop ::
  "Config \<Rightarrow> (nat \<Rightarrow> error + captchaResult) \<Rightarrow> (nat \<Rightarrow> real) \<Rightarrow> int \<Rightarrow> nat
     \<Rightarrow> (error + string) \<times> nat" where
  "pollLoop cfg poll elapsed i calls =
     (if i < MaxCaptchaRetries cfg then
        (case poll (nat i) of
           Inl err \<Rightarrow> pollLoop cfg poll elapsed (i + 1) (calls + 1)
         | Inr result \<Rightarrow>
             if Status result = ''ready'' then (Inr (GRecaptchaResponse result), calls + 1)
             else if elapsed (nat i) > CaptchaTimeout cfg
               then (Inl (CaptchaTimedOut (CaptchaTimeout cfg)), calls + 1)
             else pollLoop cfg poll elapsed (i + 1) (calls + 1))
      else (Inl (CaptchaFailedAfter (MaxCaptchaRetries cfg)), calls))"
  by pat_completeness auto
termination
  by (relation "measure (\<lambda>(cfg, poll, elapsed, i, calls). nat (MaxCaptchaRetries cfg - i))") auto

declare pollLoop.simps [simp del]

text \<open>
  The two solvers. Each returns its Go result and the list of task identifiers it called
  \<open>getTaskResult\<close> with, in order. (\<open>json.Marshal\<close> of the task struct does not fail.)
\<close>

definition solveCaptchaWithEZCaptcha :: "Config \<Rightarrow> string provider \<Rightarrow> (error + string) \<times> string list" where
  "solveCaptchaWithEZCaptcha cfg p =
     (case createTask p of
        CreatePostFailed \<Rightarrow> (Inl TransportError, [])
      | CreateDecodeFailed \<Rightarrow> (Inl DecodeError, [])
      | CreateDecoded taskID \<Rightarrow>
          (case pollLoop cfg (getEZCaptchaTaskResult p taskID) (since p) 0 0 of
             (r, calls) \<Rightarrow> (r, replicate calls taskID)))"

definition solveCaptchaWith2Captcha :: "Config \<Rightarrow> int provider \<Rightarrow> (error + string) \<times> int list" where
  "solveCaptchaWith2Captcha cfg p =
     (case createTask p of
        CreatePostFailed \<Rightarrow> (Inl TransportError, [])
      | CreateDecodeFailed \<Rightarrow> (Inl DecodeError, [])
      | CreateDecoded taskID \<Rightarrow>
          (case pollLoop cfg (get2CaptchaTaskResult p taskID) (since p) 0 0 of
             (r, calls) \<Rightarrow> (r, replicate calls taskID)))"

section \<open>The promo submitter\<close>

text \<open>
  An HTTP exchange as \<open>submitPromoEntry\<close> sees it. The request: the form body
  (\<open>data.Encode()\<close>) and the \<open>Cookie\<close> header. The reply: \<open>client.Do\<close> fails, or
  \<open>io.ReadAll(resp.Body)\<close> fails, or there is a response with its status code and
  \<open>resp.Cookies()\<close>, the parsed \<open>Set-Cookie\<close> entries in order.
\<close>

record request =
  Form :: "(string \<times> string) list"
  CookieHeader :: string

record cookie =
  Name :: string
  Value :: string

record response =
  StatusCode :: int
  Cookies :: "cookie list"

datatype http_reply = DoFailed | ReadAllFailed | Replied response

text \<open>
  \<^verbatim>\<open>
  var cfClearance string
  for _, cookie := range resp.Cookies() {
      if cookie.Name == "cf_clearance" { cfClearance = cookie.Value; break }
  }
  \<close>
\<close>

fun findClearance :: "cookie list \<Rightarrow> string" where
  "findClearance [] = ''''"
| "findClearance (c # cs) = (if Name c = ''cf_clearance'' then Value c else findClearance cs)"

text \<open>
  The parts of the world that a submission depends on: whether \<open>url.Parse\<close> accepts the
  proxy URL built from the configuration, whether \<open>http.NewRequest\<close> accepts the submit
  URL (both are functions of the configuration alone, so one answer serves every call),
  the reply to the primary submission and the reply to the \<open>i\<close>-th additional one.
\<close>

record web =
  proxyURLParses :: bool
  newRequestOK :: bool
  primaryReply :: http_reply
  additionalReply :: "nat \<Rightarrow> http_reply"

text \<open>
  \<open>submitPromoEntry(email, captchaToken)\<close>, with the reply of the remote side as an extra
  argument. It returns the Go result and the requests it sent.
\<close>

definition submitPromoEntry ::
  "Config \<Rightarrow> web \<Rightarrow> http_reply \<Rightarrow> string \<Rightarrow> string \<Rightarrow> (error + string) \<times> request list" where
  "submitPromoEntry cfg w reply email captchaToken =
     (if UseProxy cfg \<and> \<not> proxyURLParses w then (Inl ProxyURLError, [])
      else if \<not> newRequestOK w then (Inl NewRequestError, [])
      else
        let req = \<lparr>Form = [(''Email'', email), (''g-recaptcha-response'', captchaToken)],
                   CookieHeader = ''cookieconsent_status=dismiss''\<rparr>
        in (case reply of
              DoFailed \<Rightarrow> (Inl TransportError, [req])
            | ReadAllFailed \<Rightarrow> (Inl ReadBodyError, [req])
            | Replied resp \<Rightarrow>
                if StatusCode resp \<noteq> 200
                then (Inl (PromoSubmissionFailed (StatusCode resp)), [req])
                else (Inr (findClearance (Cookies resp)), [req])))"

text \<open>\<open>submitPromoEntryWithCookie(email, captchaToken, cfClearance)\<close>, likewise.\<close>

definition submitPromoEntryWithCookie ::
  "Config \<Rightarrow> web \<Rightarrow> http_reply \<Rightarrow> string \<Rightarrow> string \<Rightarrow> string \<Rightarrow> (error + string) \<times> request list" where
  "submitPromoEntryWithCookie cfg w reply email captchaToken cfClearance =
     (if UseProxy cfg \<and> \<not> proxyURLParses w then (Inl ProxyURLError, [])
      else if \<not> newRequestOK w then (Inl NewRequestError, [])
      else
        let req = \<lparr>Form = [(''Email'', email), (''g-recaptcha-response'', captchaToken)],
                   CookieHeader = ''cookieconsent_status=dismiss; cf_clearance='' @ cfClearance\<rparr>
        in (case reply of
              DoFailed \<Rightarrow> (Inl TransportError, [req])
            | ReadAllFailed \<Rightarrow> (Inl ReadBodyError, [req])
            | Replied resp \<Rightarrow>
                if StatusCode resp \<noteq> 200
                then (Inl (AdditionalSubmissionFailed (StatusCode resp)), [req])
                else (Inr '''', [req])))"

section \<open>One submission cycle\<close>

text \<open>
  What \<open>submitEntry\<close> does to the outside, in order: calls of \<open>getTaskResult\<close> at either
  provider, requests sent by \<open>submitPromoEntry\<close> and by \<open>submitPromoEntryWithCookie\<close>, and
  calls of \<open>logSubmission\<close>.
\<close>

datatype event =
    GetEZCaptchaTaskResult string
  | Get2CaptchaTaskResult int
  | PromoEntry request
  | AdditionalEntry request
  | LogSubmission string

text \<open>
  The world of one cycle: the result of \<open>createCloudflareEmailAlias()\<close>, the line typed
  at the "Enter email address" prompt, the two providers and the web.
\<close>

record world =
  emailAlias :: "error + string"
  userInput :: string
  ezCaptcha :: "string provider"
  twoCaptcha :: "int provider"
  promo :: web

text \<open>
  The loop \<open>for i := 0; i < 5; i++\<close> of \<open>submitEntry\<close>: the error of each call is only
  printed in debug mode.
\<close>

definition additionalEntries :: "Config \<Rightarrow> web \<Rightarrow> string \<Rightarrow> string \<Rightarrow> string \<Rightarrow> event list" where
  "additionalEntries cfg w email captchaToken cfClearance =
     concat (map (\<lambda>i. map AdditionalEntry
                     (snd (submitPromoEntryWithCookie cfg w (additionalReply w i)
                             email captchaToken cfClearance)))
                 [0..<5])"

text \<open>
  The first two steps of \<open>submitEntry\<close> (lines 219-228 and 232-236): the email address
  comes from \<open>createCloudflareEmailAlias\<close> or from the prompt, the token from the
  provider that \<open>UseTwoCaptcha\<close> selects.
\<close>

definition obtainEmail :: "Config \<Rightarrow> world \<Rightarrow> error + string" where
  "obtainEmail cfg w = (if UseCloudflareEmail cfg then emailAlias w else Inr (userInput w))"

definition solveCaptcha :: "Config \<Rightarrow> world \<Rightarrow> (error + string) \<times> event list" where
  "solveCaptcha cfg w =
     (if UseTwoCaptcha cfg
      then (case solveCaptchaWith2Captcha cfg (twoCaptcha w) of
              (r, ids) \<Rightarrow> (r, map Get2CaptchaTaskResult ids))
      else (case solveCaptchaWithEZCaptcha cfg (ezCaptcha w) of
              (r, ids) \<Rightarrow> (r, map GetEZCaptchaTaskResult ids)))"

text \<open>
  \<open>submitEntry()\<close>: the returned error (\<open>None\<close> is Go's \<open>nil\<close>) and the events of the cycle.
\<close>

definition submitEntry :: "Config \<Rightarrow> world \<Rightarrow> error option \<times> event list" where
  "submitEntry cfg w =
     (case obtainEmail cfg w of
        Inl err \<Rightarrow> (Some (ErrorCreatingEmailAlias err), [])
      | Inr email \<Rightarrow>
          (case solveCaptcha cfg w of
             (Inl err, polls) \<Rightarrow> (Some (ErrorSolvingCaptcha err), polls)
           | (Inr captchaToken, polls) \<Rightarrow>
               (case submitPromoEntry cfg (promo w) (primaryReply (promo w)) email captchaToken of
                  (Inl err, reqs) \<Rightarrow> (Some (ErrorSubmittingPromoEntry err), polls @ map PromoEntry reqs)
                | (Inr cfClearance, reqs) \<Rightarrow>
                    (None,
                     polls @ map PromoEntry reqs
                       @ (if cfClearance \<noteq> ''''
                          then additionalEntries cfg (promo w) email captchaToken cfClearance
                          else [])
                       @ [LogSubmission email]))))"

text \<open>Reading a trace.\<close>

fun isAdditionalEntry :: "event \<Rightarrow> bool" where
  "isAdditionalEntry (AdditionalEntry req) = True"
| "isAdditionalEntry e = False"

fun isLogSubmission :: "event \<Rightarrow> bool" where
  "isLogSubmission (LogSubmission email) = True"
| "isLogSubmission e = False"

section \<open>Vocabulary of the properties\<close>

text \<open>
  The outcome of the \<open>i\<close>-th poll of task \<open>a\<close>: the call failed; it returned a result
  that is not ready (any status other than "ready" is treated as pending); it returned a
  ready result carrying \<open>token\<close>.
\<close>

definition failedAt :: "'id provider \<Rightarrow> 'id \<Rightarrow> nat \<Rightarrow> bool" where
  "failedAt p a i =
     (case getTaskResult p a i of PollDecoded result \<Rightarrow> False | _ \<Rightarrow> True)"

definition pendingAt :: "'id provider \<Rightarrow> 'id \<Rightarrow> nat \<Rightarrow> bool" where
  "pendingAt p a i =
     (case getTaskResult p a i of PollDecoded result \<Rightarrow> Status result \<noteq> ''ready'' | _ \<Rightarrow> False)"

definition readyAt :: "'id provider \<Rightarrow> 'id \<Rightarrow> nat \<Rightarrow> string \<Rightarrow> bool" where
  "readyAt p a i token =
     (case getTaskResult p a i of
        PollDecoded result \<Rightarrow> Status result = ''ready'' \<and> GRecaptchaResponse result = token
      | _ \<Rightarrow> False)"

text \<open>
  Attempt \<open>i\<close> neither returns a token nor times out: the poll failed, or it is pending
  and the elapsed time does not exceed the timeout.
\<close>

definition carriesOn :: "Config \<Rightarrow> 'id provider \<Rightarrow> 'id \<Rightarrow> nat \<Rightarrow> bool" where
  "carriesOn cfg p a i =
     (failedAt p a i \<or> (pendingAt p a i \<and> since p i \<le> CaptchaTimeout cfg))"

text \<open>The same at the level of the loop, for the call \<open>poll\<close> it is given.\<close>

definition keepsPolling :: "Config \<Rightarrow> (nat \<Rightarrow> error + captchaResult) \<Rightarrow> (nat \<Rightarrow> real) \<Rightarrow> nat \<Rightarrow> bool" where
  "keepsPolling cfg poll elapsed j =
     (case poll j of
        Inl err \<Rightarrow> True
      | Inr result \<Rightarrow> Status result \<noteq> ''ready'' \<and> \<not> elapsed j > CaptchaTimeout cfg)"

text \<open>
  The configuration left by the defaults when the file sets neither the retry count nor
  the timeout: 5 attempts, 120 seconds; no proxy, email typed in, provider EZ-Captcha.
\<close>

definition defaultConfig :: Config where
  "defaultConfig =
     applyDefaults \<lparr>UseProxy = False, UseCloudflareEmail = False, UseTwoCaptcha = False,
                    MaxCaptchaRetries = 0, CaptchaTimeout = 0\<rparr>"

text \<open>Poll results: in progress, and ready with a token.\<close>

definition processing :: poll_reply where
  "processing = PollDecoded \<lparr>Status = ''processing'', GRecaptchaResponse = ''''\<rparr>"

definition ready :: "string \<Rightarrow> poll_reply" where
  "ready token = PollDecoded \<lparr>Status = ''ready'', GRecaptchaResponse = token\<rparr>"

text \<open>
  A provider that creates task \<open>a\<close>, answers "processing" to the first \<open>k\<close> polls and
  "ready" with \<open>token\<close> from then on; iteration \<open>i\<close> reads the clock at \<open>clock i\<close> seconds.
\<close>

definition readyAfter :: "'id \<Rightarrow> nat \<Rightarrow> string \<Rightarrow> (nat \<Rightarrow> real) \<Rightarrow> 'id provider" where
  "readyAfter a k token clock =
     \<lparr>createTask = CreateDecoded a,
      getTaskResult = (\<lambda>taskID i. if i < k then processing else ready token),
      since = clock\<rparr>"

text \<open>A provider that creates task \<open>a\<close> and answers "processing" to every poll.\<close>

definition alwaysPending :: "'id \<Rightarrow> (nat \<Rightarrow> real) \<Rightarrow> 'id provider" where
  "alwaysPending a clock =
     \<lparr>createTask = CreateDecoded a,
      getTaskResult = (\<lambda>taskID i. processing),
      since = clock\<rparr>"

text \<open>A provider that creates task \<open>a\<close> and whose every poll fails in transport.\<close>

definition alwaysFailing :: "'id \<Rightarrow> (nat \<Rightarrow> real) \<Rightarrow> 'id provider" where
  "alwaysFailing a clock =
     \<lparr>createTask = CreateDecoded a,
      getTaskResult = (\<lambda>taskID i. PollPostFailed),
      since = clock\<rparr>"

text \<open>
  The clock of a loop whose polls answer at once: iteration \<open>i\<close> has slept \<open>i + 1\<close> times
  10 seconds. And the clock of a loop whose first poll hung for two minutes.
\<close>

definition promptClock :: "nat \<Rightarrow> real" where
  "promptClock i = 10 * (real i + 1)"

definition slowClock :: "nat \<Rightarrow> real" where
  "slowClock i = 130 + 10 * real i"

text \<open>The same with \<open>captcha_timeout\<close> set to 15 seconds.\<close>

definition shortTimeoutConfig :: Config where
  "shortTimeoutConfig =
     applyDefaults \<lparr>UseProxy = False, UseCloudflareEmail = False, UseTwoCaptcha = False,
                    MaxCaptchaRetries = 0, CaptchaTimeout = 15\<rparr>"

text \<open>
  A provider whose \<open>createTask\<close> cannot be reached, and one whose \<open>createTask\<close> answers
  with a body that does not decode.
\<close>

definition unreachable :: "'id provider" where
  "unreachable =
     \<lparr>createTask = CreatePostFailed, getTaskResult = (\<lambda>taskID i. PollPostFailed), since = promptClock\<rparr>"

definition garbled :: "'id provider" where
  "garbled =
     \<lparr>createTask = CreateDecodeFailed, getTaskResult = (\<lambda>taskID i. PollDecodeFailed), since = promptClock\<rparr>"

text \<open>Replies of the promo site and worlds built from them.\<close>

fun isPromoEntry :: "event \<Rightarrow> bool" where
  "isPromoEntry (PromoEntry req) = True"
| "isPromoEntry e = False"

definition statusReply :: "int \<Rightarrow> http_reply" where
  "statusReply code = Replied \<lparr>StatusCode = code, Cookies = []\<rparr>"

definition clearanceReply :: "string \<Rightarrow> http_reply" where
  "clearanceReply clearance =
     Replied \<lparr>StatusCode = 200,
              Cookies = [\<lparr>Name = ''session'', Value = ''s1''\<rparr>,
                         \<lparr>Name = ''cf_clearance'', Value = clearance\<rparr>,
                         \<lparr>Name = ''cf_clearance'', Value = ''later''\<rparr>]\<rparr>"

definition flakyReplies :: "nat \<Rightarrow> http_reply" where
  "flakyReplies i = (if even i then statusReply 403 else DoFailed)"

definition acceptingReplies :: "nat \<Rightarrow> http_reply" where
  "acceptingReplies i = statusReply 200"

definition directWeb :: "http_reply \<Rightarrow> (nat \<Rightarrow> http_reply) \<Rightarrow> web" where
  "directWeb primary additional =
     \<lparr>proxyURLParses = True, newRequestOK = True,
      primaryReply = primary, additionalReply = additional\<rparr>"

definition typedEmailWorld :: "web \<Rightarrow> world" where
  "typedEmailWorld w =
     \<lparr>emailAlias = Inl AliasError, userInput = ''a@b.c'',
      ezCaptcha = readyAfter ''abc'' 2 ''XYZ'' promptClock,
      twoCaptcha = unreachable, promo = w\<rparr>"

section \<open>Facts about the polling loop\<close>

lemma pollLoop_continue:
  assumes "keepsPolling cfg poll elapsed j" "int j < MaxCaptchaRetries cfg"
  shows "pollLoop cfg poll elapsed (int j) c = pollLoop cfg poll elapsed (int (Suc j)) (Suc c)"
  using assms
  by (subst pollLoop.simps) (simp add: keepsPolling_def add.commute split: sum.splits)

lemma pollLoop_skip:
  assumes "\<forall>j<k. keepsPolling cfg poll elapsed j" "int k \<le> MaxCaptchaRetries cfg"
  shows "pollLoop cfg poll elapsed 0 0 = pollLoop cfg poll elapsed (int k) k"
  using assms
proof (induction k)
  case 0
  show ?case by simp
next
  case (Suc k)
  have "pollLoop cfg poll elapsed 0 0 = pollLoop cfg poll elapsed (int k) k"
    using Suc by simp
  also have "\<dots> = pollLoop cfg poll elapsed (int (Suc k)) (Suc k)"
    using Suc.prems by (intro pollLoop_continue) simp_all
  finally show ?case .
qed

lemma pollLoop_ready:
  assumes "int k < MaxCaptchaRetries cfg" "poll k = Inr result" "Status result = ''ready''"
  shows "pollLoop cfg poll elapsed (int k) c = (Inr (GRecaptchaResponse result), Suc c)"
  using assms by (subst pollLoop.simps) simp

lemma pollLoop_timeout:
  assumes "int k < MaxCaptchaRetries cfg" "poll k = Inr result" "Status result \<noteq> ''ready''"
    "elapsed k > CaptchaTimeout cfg"
  shows "pollLoop cfg poll elapsed (int k) c = (Inl (CaptchaTimedOut (CaptchaTimeout cfg)), Suc c)"
  using assms by (subst pollLoop.simps) simp

lemma pollLoop_exhausted:
  assumes "MaxCaptchaRetries cfg \<le> i"
  shows "pollLoop cfg poll elapsed i c = (Inl (CaptchaFailedAfter (MaxCaptchaRetries cfg)), c)"
  using assms by (subst pollLoop.simps) simp

text \<open>Three ways through the loop, from its start.\<close>

lemma pollLoop_returns_token:
  assumes "\<forall>j<k. keepsPolling cfg poll elapsed j" "int k < MaxCaptchaRetries cfg"
    "poll k = Inr result" "Status result = ''ready''"
  shows "pollLoop cfg poll elapsed 0 0 = (Inr (GRecaptchaResponse result), Suc k)"
  using pollLoop_skip [of k cfg poll elapsed] pollLoop_ready [of k cfg poll result elapsed k] assms
  by simp

lemma pollLoop_times_out:
  assumes "\<forall>j<k. keepsPolling cfg poll elapsed j" "int k < MaxCaptchaRetries cfg"
    "poll k = Inr result" "Status result \<noteq> ''ready''" "elapsed k > CaptchaTimeout cfg"
  shows "pollLoop cfg poll elapsed 0 0 = (Inl (CaptchaTimedOut (CaptchaTimeout cfg)), Suc k)"
  using pollLoop_skip [of k cfg poll elapsed] pollLoop_timeout [of k cfg poll result elapsed k] assms
  by simp

lemma pollLoop_gives_up:
  assumes "\<forall>j<nat (MaxCaptchaRetries cfg). keepsPolling cfg poll elapsed j"
  shows "pollLoop cfg poll elapsed 0 0 =
           (Inl (CaptchaFailedAfter (MaxCaptchaRetries cfg)), nat (MaxCaptchaRetries cfg))"
proof (cases "0 \<le> MaxCaptchaRetries cfg")
  case True
  then have "pollLoop cfg poll elapsed 0 0 =
      pollLoop cfg poll elapsed (int (nat (MaxCaptchaRetries cfg))) (nat (MaxCaptchaRetries cfg))"
    using assms by (intro pollLoop_skip) simp_all
  also have "\<dots> = (Inl (CaptchaFailedAfter (MaxCaptchaRetries cfg)), nat (MaxCaptchaRetries cfg))"
    using True by (intro pollLoop_exhausted) simp
  finally show ?thesis .
next
  case False
  then show ?thesis by (simp add: pollLoop_exhausted)
qed

text \<open>From the vocabulary of providers to the loop.\<close>

lemma carriesOn_EZ:
  "carriesOn cfg p a j \<Longrightarrow> keepsPolling cfg (getEZCaptchaTaskResult p a) (since p) j"
  by (auto simp: carriesOn_def failedAt_def pendingAt_def keepsPolling_def
      getEZCaptchaTaskResult_def split: poll_reply.splits)

lemma carriesOn_2Captcha:
  "carriesOn cfg p a j \<Longrightarrow> keepsPolling cfg (get2CaptchaTaskResult p a) (since p) j"
  by (auto simp: carriesOn_def failedAt_def pendingAt_def keepsPolling_def
      get2CaptchaTaskResult_def split: poll_reply.splits)

lemma readyAt_EZ:
  "readyAt p a k token \<Longrightarrow>
     \<exists>result. getEZCaptchaTaskResult p a k = Inr result \<and> Status result = ''ready''
       \<and> GRecaptchaResponse result = token"
  by (auto simp: readyAt_def getEZCaptchaTaskResult_def split: poll_reply.splits)

lemma readyAt_2Captcha:
  "readyAt p a k token \<Longrightarrow>
     \<exists>result. get2CaptchaTaskResult p a k = Inr result \<and> Status result = ''ready''
       \<and> GRecaptchaResponse result = token"
  by (auto simp: readyAt_def get2CaptchaTaskResult_def split: poll_reply.splits)

lemma pendingAt_EZ:
  "pendingAt p a k \<Longrightarrow>
     \<exists>result. getEZCaptchaTaskResult p a k = Inr result \<and> Status result \<noteq> ''ready''"
  by (auto simp: pendingAt_def getEZCaptchaTaskResult_def split: poll_reply.splits)

lemma pendingAt_2Captcha:
  "pendingAt p a k \<Longrightarrow>
     \<exists>result. get2CaptchaTaskResult p a k = Inr result \<and> Status result \<noteq> ''ready''"
  by (auto simp: pendingAt_def get2CaptchaTaskResult_def split: poll_reply.splits)

text \<open>The solvers, along the same three ways.\<close>

lemma solve_EZ_token:
  assumes "createTask p = CreateDecoded a" "int k < MaxCaptchaRetries cfg"
    "\<forall>j<k. carriesOn cfg p a j" "readyAt p a k token"
  shows "solveCaptchaWithEZCaptcha cfg p = (Inr token, replicate (Suc k) a)"
proof -
  obtain result where r: "getEZCaptchaTaskResult p a k = Inr result" "Status result = ''ready''"
    "GRecaptchaResponse result = token"
    using readyAt_EZ [OF assms(4)] by blast
  have "pollLoop cfg (getEZCaptchaTaskResult p a) (since p) 0 0 = (Inr token, Suc k)"
    using pollLoop_returns_token [of k cfg "getEZCaptchaTaskResult p a" "since p" result]
      assms(2,3) r carriesOn_EZ by auto
  then show ?thesis
    using assms(1) by (simp add: solveCaptchaWithEZCaptcha_def)
qed

lemma solve_2Captcha_token:
  assumes "createTask p = CreateDecoded a" "int k < MaxCaptchaRetries cfg"
    "\<forall>j<k. carriesOn cfg p a j" "readyAt p a k token"
  shows "solveCaptchaWith2Captcha cfg p = (Inr token, replicate (Suc k) a)"
proof -
  obtain result where r: "get2CaptchaTaskResult p a k = Inr result" "Status result = ''ready''"
    "GRecaptchaResponse result = token"
    using readyAt_2Captcha [OF assms(4)] by blast
  have "pollLoop cfg (get2CaptchaTaskResult p a) (since p) 0 0 = (Inr token, Suc k)"
    using pollLoop_returns_token [of k cfg "get2CaptchaTaskResult p a" "since p" result]
      assms(2,3) r carriesOn_2Captcha by auto
  then show ?thesis
    using assms(1) by (simp add: solveCaptchaWith2Captcha_def)
qed

lemma solve_EZ_timeout:
  assumes "createTask p = CreateDecoded a" "int k < MaxCaptchaRetries cfg"
    "\<forall>j<k. carriesOn cfg p a j" "pendingAt p a k" "since p k > CaptchaTimeout cfg"
  shows "solveCaptchaWithEZCaptcha cfg p =
           (Inl (CaptchaTimedOut (CaptchaTimeout cfg)), replicate (Suc k) a)"
proof -
  obtain result where r: "getEZCaptchaTaskResult p a k = Inr result" "Status result \<noteq> ''ready''"
    using pendingAt_EZ [OF assms(4)] by blast
  have "pollLoop cfg (getEZCaptchaTaskResult p a) (since p) 0 0 =
          (Inl (CaptchaTimedOut (CaptchaTimeout cfg)), Suc k)"
    using pollLoop_times_out [of k cfg "getEZCaptchaTaskResult p a" "since p" result]
      assms(2,3,5) r carriesOn_EZ by auto
  then show ?thesis
    using assms(1) by (simp add: solveCaptchaWithEZCaptcha_def)
qed

lemma solve_2Captcha_timeout:
  assumes "createTask p = CreateDecoded a" "int k < MaxCaptchaRetries cfg"
    "\<forall>j<k. carriesOn cfg p a j" "pendingAt p a k" "since p k > CaptchaTimeout cfg"
  shows "solveCaptchaWith2Captcha cfg p =
           (Inl (CaptchaTimedOut (CaptchaTimeout cfg)), replicate (Suc k) a)"
proof -
  obtain result where r: "get2CaptchaTaskResult p a k = Inr result" "Status result \<noteq> ''ready''"
    using pendingAt_2Captcha [OF assms(4)] by blast
  have "pollLoop cfg (get2CaptchaTaskResult p a) (since p) 0 0 =
          (Inl (CaptchaTimedOut (CaptchaTimeout cfg)), Suc k)"
    using pollLoop_times_out [of k cfg "get2CaptchaTaskResult p a" "since p" result]
      assms(2,3,5) r carriesOn_2Captcha by auto
  then show ?thesis
    using assms(1) by (simp add: solveCaptchaWith2Captcha_def)
qed

lemma solve_EZ_gives_up:
  assumes "createTask p = CreateDecoded a" "\<forall>j<nat (MaxCaptchaRetries cfg). carriesOn cfg p a j"
  shows "solveCaptchaWithEZCaptcha cfg p =
           (Inl (CaptchaFailedAfter (MaxCaptchaRetries cfg)), replicate (nat (MaxCaptchaRetries cfg)) a)"
  using assms pollLoop_gives_up [of cfg "getEZCaptchaTaskResult p a" "since p"] carriesOn_EZ
  by (auto simp: solveCaptchaWithEZCaptcha_def)

lemma solve_2Captcha_gives_up:
  assumes "createTask p = CreateDecoded a" "\<forall>j<nat (MaxCaptchaRetries cfg). carriesOn cfg p a j"
  shows "solveCaptchaWith2Captcha cfg p =
           (Inl (CaptchaFailedAfter (MaxCaptchaRetries cfg)), replicate (nat (MaxCaptchaRetries cfg)) a)"
  using assms pollLoop_gives_up [of cfg "get2CaptchaTaskResult p a" "since p"] carriesOn_2Captcha
  by (auto simp: solveCaptchaWith2Captcha_def)

lemma defaultConfig_simps:
  "MaxCaptchaRetries defaultConfig = 5" "CaptchaTimeout defaultConfig = 120"
  "UseProxy defaultConfig = False" "UseCloudflareEmail defaultConfig = False"
  "UseTwoCaptcha defaultConfig = False"
  by (simp_all add: defaultConfig_def applyDefaults_def)

lemma shortTimeoutConfig_simps:
  "MaxCaptchaRetries shortTimeoutConfig = 5" "CaptchaTimeout shortTimeoutConfig = 15"
  "UseProxy shortTimeoutConfig = False" "UseCloudflareEmail shortTimeoutConfig = False"
  "UseTwoCaptcha shortTimeoutConfig = False"
  by (simp_all add: shortTimeoutConfig_def applyDefaults_def)

lemma readyAfter_simps:
  "createTask (readyAfter a k token clock) = CreateDecoded a"
  "since (readyAfter a k token clock) = clock"
  "i < k \<Longrightarrow> pendingAt (readyAfter a k token clock) b i"
  "k \<le> i \<Longrightarrow> readyAt (readyAfter a k token clock) b i token"
  by (simp_all add: readyAfter_def pendingAt_def readyAt_def processing_def ready_def)

lemma alwaysPending_simps:
  "createTask (alwaysPending a clock) = CreateDecoded a"
  "since (alwaysPending a clock) = clock"
  "pendingAt (alwaysPending a clock) b i"
  by (simp_all add: alwaysPending_def pendingAt_def processing_def)

lemma alwaysFailing_simps:
  "createTask (alwaysFailing a clock) = CreateDecoded a"
  "since (alwaysFailing a clock) = clock"
  "failedAt (alwaysFailing a clock) b i"
  by (simp_all add: alwaysFailing_def failedAt_def)

lemma pollLoop_calls_mono: "calls \<le> snd (pollLoop cfg poll elapsed i calls)"
proof (induction cfg poll elapsed i calls rule: pollLoop.induct)
  case (1 cfg poll elapsed i calls)
  show ?case
    using 1 by (subst pollLoop.simps) (auto split: sum.splits dest: Suc_leD)
qed

lemma pollLoop_first_call:
  assumes "0 < MaxCaptchaRetries cfg"
  shows "0 < snd (pollLoop cfg poll elapsed 0 0)"
  using assms pollLoop_calls_mono [of 1 cfg poll elapsed 1]
  by (subst pollLoop.simps) (auto split: sum.splits)

lemma promptClock_le: "i < 5 \<Longrightarrow> promptClock i \<le> 120"
  by (simp add: promptClock_def)

section \<open>Facts about the submitter and the cycle\<close>

lemma findClearance_first:
  assumes "Name c = ''cf_clearance''" "\<forall>d\<in>set before. Name d \<noteq> ''cf_clearance''"
  shows "findClearance (before @ c # after) = Value c"
  using assms by (induction before) simp_all

lemma findClearance_none:
  assumes "\<forall>d\<in>set cs. Name d \<noteq> ''cf_clearance''"
  shows "findClearance cs = ''''"
  using assms by (induction cs) simp_all

lemma solveCaptcha_events:
  "filter isAdditionalEntry (snd (solveCaptcha cfg w)) = []"
  "filter isLogSubmission (snd (solveCaptcha cfg w)) = []"
  "filter isPromoEntry (snd (solveCaptcha cfg w)) = []"
  by (simp_all add: solveCaptcha_def filter_empty_conv split: prod.splits)

lemma steps_ignore_additionalReply:
  "obtainEmail cfg (w\<lparr>promo := (promo w)\<lparr>additionalReply := replies\<rparr>\<rparr>) = obtainEmail cfg w"
  "solveCaptcha cfg (w\<lparr>promo := (promo w)\<lparr>additionalReply := replies\<rparr>\<rparr>) = solveCaptcha cfg w"
  "submitPromoEntry cfg (x\<lparr>additionalReply := replies\<rparr>) reply email token =
     submitPromoEntry cfg x reply email token"
  by (simp_all add: obtainEmail_def solveCaptcha_def submitPromoEntry_def)

lemma submitPromoEntry_sent:
  assumes "fst (submitPromoEntry cfg x reply email token) = Inr clearance"
  shows "(UseProxy cfg \<longrightarrow> proxyURLParses x) \<and> newRequestOK x"
    and "snd (submitPromoEntry cfg x reply email token) =
           [\<lparr>Form = [(''Email'', email), (''g-recaptcha-response'', token)],
             CookieHeader = ''cookieconsent_status=dismiss''\<rparr>]"
  using assms
  by (auto simp: submitPromoEntry_def Let_def split: if_splits http_reply.splits)

lemma submitPromoEntryWithCookie_sent:
  assumes "UseProxy cfg \<longrightarrow> proxyURLParses x" "newRequestOK x"
  shows "snd (submitPromoEntryWithCookie cfg x reply email token clearance) =
           [\<lparr>Form = [(''Email'', email), (''g-recaptcha-response'', token)],
             CookieHeader = ''cookieconsent_status=dismiss; cf_clearance='' @ clearance\<rparr>]"
  using assms
  by (auto simp: submitPromoEntryWithCookie_def Let_def split: http_reply.splits)

lemma additionalEntries_sent:
  assumes "UseProxy cfg \<longrightarrow> proxyURLParses x" "newRequestOK x"
  shows "additionalEntries cfg x email token clearance =
           replicate 5
             (AdditionalEntry
                \<lparr>Form = [(''Email'', email), (''g-recaptcha-response'', token)],
                 CookieHeader = ''cookieconsent_status=dismiss; cf_clearance='' @ clearance\<rparr>)"
  using assms
  by (simp add: additionalEntries_def submitPromoEntryWithCookie_sent numeral_eq_Suc upt_rec)

lemma submitEntry_accepted:
  assumes "obtainEmail cfg w = Inr email" "solveCaptcha cfg w = (Inr token, polls)"
    "fst (submitPromoEntry cfg (promo w) (primaryReply (promo w)) email token) = Inr clearance"
  shows "submitEntry cfg w =
           (None,
            polls
            @ [PromoEntry \<lparr>Form = [(''Email'', email), (''g-recaptcha-response'', token)],
                           CookieHeader = ''cookieconsent_status=dismiss''\<rparr>]
            @ (if clearance \<noteq> ''''
               then replicate 5
                      (AdditionalEntry
                         \<lparr>Form = [(''Email'', email), (''g-recaptcha-response'', token)],
                          CookieHeader = ''cookieconsent_status=dismiss; cf_clearance='' @ clearance\<rparr>)
               else [])
            @ [LogSubmission email])"
proof -
  obtain reqs where s: "submitPromoEntry cfg (promo w) (primaryReply (promo w)) email token =
      (Inr clearance, reqs)"
    using assms(3) by (cases "submitPromoEntry cfg (promo w) (primaryReply (promo w)) email token") simp
  have reqs: "reqs = [\<lparr>Form = [(''Email'', email), (''g-recaptcha-response'', token)],
             CookieHeader = ''cookieconsent_status=dismiss''\<rparr>]"
    using submitPromoEntry_sent(2) [OF assms(3)] s by simp
  have ok: "UseProxy cfg \<longrightarrow> proxyURLParses (promo w)" "newRequestOK (promo w)"
    using submitPromoEntry_sent(1) [OF assms(3)] by simp_all
  show ?thesis
    using assms(1,2) s reqs additionalEntries_sent [OF ok]
    by (simp add: submitEntry_def)
qed

lemma submitEntry_rejected:
  assumes "obtainEmail cfg w = Inr email" "solveCaptcha cfg w = (Inr token, polls)"
    "submitPromoEntry cfg (promo w) (primaryReply (promo w)) email token = (Inl err, reqs)"
  shows "submitEntry cfg w = (Some (ErrorSubmittingPromoEntry err), polls @ map PromoEntry reqs)"
  using assms by (simp add: submitEntry_def)

lemma typedEmailWorld_steps:
  "obtainEmail defaultConfig (typedEmailWorld x) = Inr ''a@b.c''"
  "solveCaptcha defaultConfig (typedEmailWorld x) =
     (Inr ''XYZ'', [GetEZCaptchaTaskResult ''abc'', GetEZCaptchaTaskResult ''abc'',
                    GetEZCaptchaTaskResult ''abc''])"
  "promo (typedEmailWorld x) = x"
proof -
  have "\<forall>j<2. carriesOn defaultConfig (readyAfter ''abc'' 2 ''XYZ'' promptClock) ''abc'' j"
    by (simp add: carriesOn_def readyAfter_simps defaultConfig_simps promptClock_le)
  then have "solveCaptchaWithEZCaptcha defaultConfig (readyAfter ''abc'' 2 ''XYZ'' promptClock) =
      (Inr ''XYZ'', replicate (Suc 2) ''abc'')"
    by (intro solve_EZ_token) (simp_all add: readyAfter_simps defaultConfig_simps)
  then show "solveCaptcha defaultConfig (typedEmailWorld x) =
     (Inr ''XYZ'', [GetEZCaptchaTaskResult ''abc'', GetEZCaptchaTaskResult ''abc'',
                    GetEZCaptchaTaskResult ''abc''])"
    by (simp add: solveCaptcha_def typedEmailWorld_def defaultConfig_simps numeral_eq_Suc)
qed (simp_all add: obtainEmail_def typedEmailWorld_def defaultConfig_simps)

lemma directWeb_simps:
  "proxyURLParses (directWeb primary additional) = True"
  "newRequestOK (directWeb primary additional) = True"
  "primaryReply (directWeb primary additional) = primary"
  "additionalReply (directWeb primary additional) = additional"
  "(directWeb primary additional)\<lparr>additionalReply := replies\<rparr> = directWeb primary replies"
  by (simp_all add: directWeb_def)

lemma typedEmailWorld_update:
  "(typedEmailWorld x)\<lparr>promo := y\<rparr> = typedEmailWorld y"
  by (simp add: typedEmailWorld_def)

section \<open>The solver: retries, timeout, success\<close>

text \<open>
  Claim C3. For every configured retry count \<open>n\<close>, against a provider whose every poll
  returns a result that is not ready, and with the elapsed time never above the timeout
  during the loop, either solver polls the created task exactly \<open>n\<close> times and then fails
  with "captcha solving failed after n attempts". (The list of polled identifiers has
  \<open>nat n\<close> entries: \<open>n\<close> of them for \<open>n \<ge> 0\<close>; a negative \<open>n\<close> runs no iteration.)
\<close>

theorem always_pending_exhausts_retries:
  fixes p :: "string provider" and q :: "int provider"
  shows
  "(createTask p = CreateDecoded a \<and>
      (\<forall>i<nat (MaxCaptchaRetries cfg). pendingAt p a i \<and> since p i \<le> CaptchaTimeout cfg)
    \<longrightarrow> solveCaptchaWithEZCaptcha cfg p =
          (Inl (CaptchaFailedAfter (MaxCaptchaRetries cfg)),
           replicate (nat (MaxCaptchaRetries cfg)) a)) \<and>
   (createTask q = CreateDecoded b \<and>
      (\<forall>i<nat (MaxCaptchaRetries cfg). pendingAt q b i \<and> since q i \<le> CaptchaTimeout cfg)
    \<longrightarrow> solveCaptchaWith2Captcha cfg q =
          (Inl (CaptchaFailedAfter (MaxCaptchaRetries cfg)),
           replicate (nat (MaxCaptchaRetries cfg)) b))"
proof (intro conjI impI)
  assume h: "createTask p = CreateDecoded a \<and>
      (\<forall>i<nat (MaxCaptchaRetries cfg). pendingAt p a i \<and> since p i \<le> CaptchaTimeout cfg)"
  then have "\<forall>j<nat (MaxCaptchaRetries cfg). carriesOn cfg p a j"
    by (simp add: carriesOn_def)
  with h show "solveCaptchaWithEZCaptcha cfg p =
          (Inl (CaptchaFailedAfter (MaxCaptchaRetries cfg)),
           replicate (nat (MaxCaptchaRetries cfg)) a)"
    by (intro solve_EZ_gives_up) simp_all
next
  assume h: "createTask q = CreateDecoded b \<and>
      (\<forall>i<nat (MaxCaptchaRetries cfg). pendingAt q b i \<and> since q i \<le> CaptchaTimeout cfg)"
  then have "\<forall>j<nat (MaxCaptchaRetries cfg). carriesOn cfg q b j"
    by (simp add: carriesOn_def)
  with h show "solveCaptchaWith2Captcha cfg q =
          (Inl (CaptchaFailedAfter (MaxCaptchaRetries cfg)),
           replicate (nat (MaxCaptchaRetries cfg)) b)"
    by (intro solve_2Captcha_gives_up) simp_all
qed

theorem always_pending_exhausts_retries_witness:
  "solveCaptchaWithEZCaptcha defaultConfig (alwaysPending ''abc'' promptClock) =
     (Inl (CaptchaFailedAfter 5), [''abc'', ''abc'', ''abc'', ''abc'', ''abc'']) \<and>
   solveCaptchaWith2Captcha defaultConfig (alwaysPending 81 promptClock) =
     (Inl (CaptchaFailedAfter 5), [81, 81, 81, 81, 81])"
  using always_pending_exhausts_retries
    [of "alwaysPending ''abc'' promptClock" "''abc''" defaultConfig "alwaysPending 81 promptClock" 81]
  by (simp add: alwaysPending_simps defaultConfig_simps promptClock_le numeral_eq_Suc)

text \<open>
  Claim C4. If the poll of attempt \<open>k + 1\<close> (at most the retry count) returns a ready
  result carrying a token, within the timeout, every earlier attempt having gone on to
  the next one, then the solver returns that token and has polled exactly \<open>k + 1\<close> times:
  no poll follows. In particular, with the default configuration, a create response with
  task "abc" and the polls processing, processing, ready with "XYZ", EZ-Captcha's solver
  returns "XYZ" after exactly 3 polls.
\<close>

theorem ready_poll_returns_token:
  fixes p :: "string provider" and q :: "int provider"
  shows
  "(createTask p = CreateDecoded a \<and> int k < MaxCaptchaRetries cfg \<and>
      (\<forall>j<k. carriesOn cfg p a j) \<and> readyAt p a k token \<and> since p k \<le> CaptchaTimeout cfg
    \<longrightarrow> solveCaptchaWithEZCaptcha cfg p = (Inr token, replicate (Suc k) a)) \<and>
   (createTask q = CreateDecoded b \<and> int k < MaxCaptchaRetries cfg \<and>
      (\<forall>j<k. carriesOn cfg q b j) \<and> readyAt q b k token \<and> since q k \<le> CaptchaTimeout cfg
    \<longrightarrow> solveCaptchaWith2Captcha cfg q = (Inr token, replicate (Suc k) b)) \<and>
   solveCaptchaWithEZCaptcha defaultConfig (readyAfter ''abc'' 2 ''XYZ'' promptClock) =
     (Inr ''XYZ'', [''abc'', ''abc'', ''abc''])"
proof (intro conjI impI)
  assume "createTask p = CreateDecoded a \<and> int k < MaxCaptchaRetries cfg \<and>
      (\<forall>j<k. carriesOn cfg p a j) \<and> readyAt p a k token \<and> since p k \<le> CaptchaTimeout cfg"
  then show "solveCaptchaWithEZCaptcha cfg p = (Inr token, replicate (Suc k) a)"
    by (intro solve_EZ_token) simp_all
next
  assume "createTask q = CreateDecoded b \<and> int k < MaxCaptchaRetries cfg \<and>
      (\<forall>j<k. carriesOn cfg q b j) \<and> readyAt q b k token \<and> since q k \<le> CaptchaTimeout cfg"
  then show "solveCaptchaWith2Captcha cfg q = (Inr token, replicate (Suc k) b)"
    by (intro solve_2Captcha_token) simp_all
next
  have "\<forall>j<2. carriesOn defaultConfig (readyAfter ''abc'' 2 ''XYZ'' promptClock) ''abc'' j"
    by (simp add: carriesOn_def readyAfter_simps defaultConfig_simps promptClock_le)
  then have "solveCaptchaWithEZCaptcha defaultConfig (readyAfter ''abc'' 2 ''XYZ'' promptClock) =
      (Inr ''XYZ'', replicate (Suc 2) ''abc'')"
    by (intro solve_EZ_token) (simp_all add: readyAfter_simps defaultConfig_simps)
  then show "solveCaptchaWithEZCaptcha defaultConfig (readyAfter ''abc'' 2 ''XYZ'' promptClock) =
      (Inr ''XYZ'', [''abc'', ''abc'', ''abc''])"
    by (simp add: numeral_eq_Suc)
qed

theorem ready_poll_returns_token_witness:
  "solveCaptchaWithEZCaptcha defaultConfig (readyAfter ''abc'' 1 ''XYZ'' promptClock) =
     (Inr ''XYZ'', [''abc'', ''abc'']) \<and>
   solveCaptchaWith2Captcha defaultConfig (readyAfter 81 1 ''XYZ'' promptClock) =
     (Inr ''XYZ'', [81, 81])"
  using ready_poll_returns_token
    [of "readyAfter ''abc'' 1 ''XYZ'' promptClock" "''abc''" 1 defaultConfig "''XYZ''"
        "readyAfter 81 1 ''XYZ'' promptClock" 81]
  by (simp add: readyAfter_simps defaultConfig_simps carriesOn_def promptClock_le)

text \<open>
  Claim C10. A ready result is returned even when the elapsed time of that attempt
  already exceeds the timeout: the ready check comes before the timeout check, so the
  solver succeeds and does not report a timeout.
\<close>

theorem ready_poll_wins_over_timeout:
  fixes p :: "string provider" and q :: "int provider"
  shows
  "(createTask p = CreateDecoded a \<and> int k < MaxCaptchaRetries cfg \<and>
      (\<forall>j<k. carriesOn cfg p a j) \<and> readyAt p a k token \<and> since p k > CaptchaTimeout cfg
    \<longrightarrow> fst (solveCaptchaWithEZCaptcha cfg p) = Inr token \<and>
        fst (solveCaptchaWithEZCaptcha cfg p) \<noteq> Inl (CaptchaTimedOut (CaptchaTimeout cfg))) \<and>
   (createTask q = CreateDecoded b \<and> int k < MaxCaptchaRetries cfg \<and>
      (\<forall>j<k. carriesOn cfg q b j) \<and> readyAt q b k token \<and> since q k > CaptchaTimeout cfg
    \<longrightarrow> fst (solveCaptchaWith2Captcha cfg q) = Inr token \<and>
        fst (solveCaptchaWith2Captcha cfg q) \<noteq> Inl (CaptchaTimedOut (CaptchaTimeout cfg)))"
proof (intro conjI impI)
  assume h: "createTask p = CreateDecoded a \<and> int k < MaxCaptchaRetries cfg \<and>
      (\<forall>j<k. carriesOn cfg p a j) \<and> readyAt p a k token \<and> since p k > CaptchaTimeout cfg"
  then have "solveCaptchaWithEZCaptcha cfg p = (Inr token, replicate (Suc k) a)"
    by (intro solve_EZ_token) simp_all
  then show "fst (solveCaptchaWithEZCaptcha cfg p) = Inr token"
    and "fst (solveCaptchaWithEZCaptcha cfg p) \<noteq> Inl (CaptchaTimedOut (CaptchaTimeout cfg))"
    by simp_all
next
  assume h: "createTask q = CreateDecoded b \<and> int k < MaxCaptchaRetries cfg \<and>
      (\<forall>j<k. carriesOn cfg q b j) \<and> readyAt q b k token \<and> since q k > CaptchaTimeout cfg"
  then have "solveCaptchaWith2Captcha cfg q = (Inr token, replicate (Suc k) b)"
    by (intro solve_2Captcha_token) simp_all
  then show "fst (solveCaptchaWith2Captcha cfg q) = Inr token"
    and "fst (solveCaptchaWith2Captcha cfg q) \<noteq> Inl (CaptchaTimedOut (CaptchaTimeout cfg))"
    by simp_all
qed

theorem ready_poll_wins_over_timeout_witness:
  "since (readyAfter ''abc'' 0 ''XYZ'' slowClock) 0 = 130 \<and>
   CaptchaTimeout defaultConfig = 120 \<and>
   fst (solveCaptchaWithEZCaptcha defaultConfig (readyAfter ''abc'' 0 ''XYZ'' slowClock)) = Inr ''XYZ'' \<and>
   fst (solveCaptchaWith2Captcha defaultConfig (readyAfter 81 0 ''XYZ'' slowClock)) = Inr ''XYZ''"
  using ready_poll_wins_over_timeout
    [of "readyAfter ''abc'' 0 ''XYZ'' slowClock" "''abc''" 0 defaultConfig "''XYZ''"
        "readyAfter 81 0 ''XYZ'' slowClock" 81]
  by (simp add: readyAfter_simps defaultConfig_simps slowClock_def)

text \<open>
  Claim C1, as stated: once the elapsed time exceeds the timeout before the attempts are
  used up, the solver fails with the timeout error whatever the polls return. It does
  not: with a 15 second timeout and 5 attempts, the second poll, made 20 seconds after
  the task was created, returns a ready result, and the solver returns its token.
\<close>

theorem timeout_does_not_override_ready_counterexample:
  "since (readyAfter ''abc'' 1 ''XYZ'' promptClock) 1 > CaptchaTimeout shortTimeoutConfig \<and>
   (1::int) < MaxCaptchaRetries shortTimeoutConfig \<and>
   solveCaptchaWithEZCaptcha shortTimeoutConfig (readyAfter ''abc'' 1 ''XYZ'' promptClock) =
     (Inr ''XYZ'', [''abc'', ''abc'']) \<and>
   fst (solveCaptchaWithEZCaptcha shortTimeoutConfig (readyAfter ''abc'' 1 ''XYZ'' promptClock)) \<noteq>
     Inl (CaptchaTimedOut (CaptchaTimeout shortTimeoutConfig))"
proof -
  have "solveCaptchaWithEZCaptcha shortTimeoutConfig (readyAfter ''abc'' 1 ''XYZ'' promptClock) =
     (Inr ''XYZ'', replicate (Suc 1) ''abc'')"
    by (intro solve_EZ_token)
      (simp_all add: readyAfter_simps shortTimeoutConfig_simps carriesOn_def promptClock_def)
  then show ?thesis
    by (simp add: readyAfter_simps shortTimeoutConfig_simps promptClock_def)
qed

text \<open>
  Claim C1, amended. For every timeout \<open>t\<close> and retry count \<open>n\<close>: when attempt \<open>k + 1\<close>
  (at most \<open>n\<close>) is the first one whose elapsed time exceeds \<open>t\<close>, the earlier ones
  being failed or pending polls within \<open>t\<close>, and its poll returns a result that is not
  ready, the solver fails at that attempt with the timeout error, after exactly \<open>k + 1\<close>
  polls, whatever the remaining polls would return.
\<close>

theorem pending_poll_past_deadline_times_out:
  fixes p :: "string provider" and q :: "int provider"
  shows
  "(createTask p = CreateDecoded a \<and> int k < MaxCaptchaRetries cfg \<and>
      (\<forall>j<k. (failedAt p a j \<or> pendingAt p a j) \<and> since p j \<le> CaptchaTimeout cfg) \<and>
      pendingAt p a k \<and> since p k > CaptchaTimeout cfg
    \<longrightarrow> solveCaptchaWithEZCaptcha cfg p =
          (Inl (CaptchaTimedOut (CaptchaTimeout cfg)), replicate (Suc k) a)) \<and>
   (createTask q = CreateDecoded b \<and> int k < MaxCaptchaRetries cfg \<and>
      (\<forall>j<k. (failedAt q b j \<or> pendingAt q b j) \<and> since q j \<le> CaptchaTimeout cfg) \<and>
      pendingAt q b k \<and> since q k > CaptchaTimeout cfg
    \<longrightarrow> solveCaptchaWith2Captcha cfg q =
          (Inl (CaptchaTimedOut (CaptchaTimeout cfg)), replicate (Suc k) b))"
proof (intro conjI impI)
  assume h: "createTask p = CreateDecoded a \<and> int k < MaxCaptchaRetries cfg \<and>
      (\<forall>j<k. (failedAt p a j \<or> pendingAt p a j) \<and> since p j \<le> CaptchaTimeout cfg) \<and>
      pendingAt p a k \<and> since p k > CaptchaTimeout cfg"
  then have "\<forall>j<k. carriesOn cfg p a j"
    by (auto simp: carriesOn_def)
  with h show "solveCaptchaWithEZCaptcha cfg p =
          (Inl (CaptchaTimedOut (CaptchaTimeout cfg)), replicate (Suc k) a)"
    by (intro solve_EZ_timeout) simp_all
next
  assume h: "createTask q = CreateDecoded b \<and> int k < MaxCaptchaRetries cfg \<and>
      (\<forall>j<k. (failedAt q b j \<or> pendingAt q b j) \<and> since q j \<le> CaptchaTimeout cfg) \<and>
      pendingAt q b k \<and> since q k > CaptchaTimeout cfg"
  then have "\<forall>j<k. carriesOn cfg q b j"
    by (auto simp: carriesOn_def)
  with h show "solveCaptchaWith2Captcha cfg q =
          (Inl (CaptchaTimedOut (CaptchaTimeout cfg)), replicate (Suc k) b)"
    by (intro solve_2Captcha_timeout) simp_all
qed

theorem pending_poll_past_deadline_times_out_witness:
  "solveCaptchaWithEZCaptcha shortTimeoutConfig (alwaysPending ''abc'' promptClock) =
     (Inl (CaptchaTimedOut 15), [''abc'', ''abc'']) \<and>
   solveCaptchaWith2Captcha shortTimeoutConfig (alwaysPending 81 promptClock) =
     (Inl (CaptchaTimedOut 15), [81, 81])"
  using pending_poll_past_deadline_times_out
    [of "alwaysPending ''abc'' promptClock" "''abc''" 1 shortTimeoutConfig
        "alwaysPending 81 promptClock" 81]
  by (simp add: alwaysPending_simps shortTimeoutConfig_simps promptClock_def)

text \<open>Poll errors: the loop goes on whatever the clock says.\<close>

lemma failing_polls_exhaust_retries:
  fixes p :: "string provider" and q :: "int provider"
  shows
  "(createTask p = CreateDecoded a \<and> (\<forall>i<nat (MaxCaptchaRetries cfg). failedAt p a i)
    \<longrightarrow> solveCaptchaWithEZCaptcha cfg p =
          (Inl (CaptchaFailedAfter (MaxCaptchaRetries cfg)), replicate (nat (MaxCaptchaRetries cfg)) a)) \<and>
   (createTask q = CreateDecoded b \<and> (\<forall>i<nat (MaxCaptchaRetries cfg). failedAt q b i)
    \<longrightarrow> solveCaptchaWith2Captcha cfg q =
          (Inl (CaptchaFailedAfter (MaxCaptchaRetries cfg)), replicate (nat (MaxCaptchaRetries cfg)) b))"
  by (auto intro!: solve_EZ_gives_up solve_2Captcha_gives_up simp: carriesOn_def)

text \<open>
  Claim C9, as stated: an empty or missing task identifier makes the solver fail before
  any poll. It does not: a create response that decodes to the empty identifier (or to 0
  at 2Captcha) is followed by 5 polls of that identifier.
\<close>

theorem empty_task_id_is_polled_counterexample:
  "createTask (alwaysPending '''' promptClock) = CreateDecoded '''' \<and>
   solveCaptchaWithEZCaptcha defaultConfig (alwaysPending '''' promptClock) =
     (Inl (CaptchaFailedAfter 5), ['''', '''', '''', '''', '''']) \<and>
   createTask (alwaysPending (0::int) promptClock) = CreateDecoded 0 \<and>
   solveCaptchaWith2Captcha defaultConfig (alwaysPending 0 promptClock) =
     (Inl (CaptchaFailedAfter 5), [0, 0, 0, 0, 0])"
proof -
  have "solveCaptchaWithEZCaptcha defaultConfig (alwaysPending '''' promptClock) =
     (Inl (CaptchaFailedAfter (MaxCaptchaRetries defaultConfig)),
      replicate (nat (MaxCaptchaRetries defaultConfig)) '''')"
    by (intro solve_EZ_gives_up)
      (simp_all add: alwaysPending_simps carriesOn_def defaultConfig_simps promptClock_le)
  moreover have "solveCaptchaWith2Captcha defaultConfig (alwaysPending 0 promptClock) =
     (Inl (CaptchaFailedAfter (MaxCaptchaRetries defaultConfig)),
      replicate (nat (MaxCaptchaRetries defaultConfig)) 0)"
    by (intro solve_2Captcha_gives_up)
      (simp_all add: alwaysPending_simps carriesOn_def defaultConfig_simps promptClock_le)
  ultimately show ?thesis
    by (simp add: alwaysPending_simps defaultConfig_simps numeral_eq_Suc)
qed

text \<open>
  Claim C9, amended. The solver fails without polling, with the error of the call,
  whenever the \<open>createTask\<close> post fails or its response does not decode. Whatever
  identifier the response decodes to, the empty one included, is polled as it is (at
  least once when the retry count is positive).
\<close>

theorem create_failure_skips_polling:
  fixes p :: "string provider" and q :: "int provider"
  shows
  "(createTask p = CreatePostFailed \<longrightarrow> solveCaptchaWithEZCaptcha cfg p = (Inl TransportError, [])) \<and>
   (createTask p = CreateDecodeFailed \<longrightarrow> solveCaptchaWithEZCaptcha cfg p = (Inl DecodeError, [])) \<and>
   (createTask p = CreateDecoded a \<and> 0 < MaxCaptchaRetries cfg
      \<longrightarrow> hd (snd (solveCaptchaWithEZCaptcha cfg p)) = a
          \<and> set (snd (solveCaptchaWithEZCaptcha cfg p)) = {a}) \<and>
   (createTask q = CreatePostFailed \<longrightarrow> solveCaptchaWith2Captcha cfg q = (Inl TransportError, [])) \<and>
   (createTask q = CreateDecodeFailed \<longrightarrow> solveCaptchaWith2Captcha cfg q = (Inl DecodeError, [])) \<and>
   (createTask q = CreateDecoded b \<and> 0 < MaxCaptchaRetries cfg
      \<longrightarrow> hd (snd (solveCaptchaWith2Captcha cfg q)) = b
          \<and> set (snd (solveCaptchaWith2Captcha cfg q)) = {b})"
proof (intro conjI impI)
  assume h: "createTask p = CreateDecoded a \<and> 0 < MaxCaptchaRetries cfg"
  then obtain m where
    "snd (pollLoop cfg (getEZCaptchaTaskResult p a) (since p) 0 0) = Suc m"
    using pollLoop_first_call [of cfg "getEZCaptchaTaskResult p a" "since p"]
    by (auto dest: Suc_pred')
  with h have "snd (solveCaptchaWithEZCaptcha cfg p) = replicate (Suc m) a"
    by (auto simp: solveCaptchaWithEZCaptcha_def split: prod.splits)
  then show "hd (snd (solveCaptchaWithEZCaptcha cfg p)) = a"
    and "set (snd (solveCaptchaWithEZCaptcha cfg p)) = {a}"
    by auto
next
  assume h: "createTask q = CreateDecoded b \<and> 0 < MaxCaptchaRetries cfg"
  then obtain m where
    "snd (pollLoop cfg (get2CaptchaTaskResult q b) (since q) 0 0) = Suc m"
    using pollLoop_first_call [of cfg "get2CaptchaTaskResult q b" "since q"]
    by (auto dest: Suc_pred')
  with h have "snd (solveCaptchaWith2Captcha cfg q) = replicate (Suc m) b"
    by (auto simp: solveCaptchaWith2Captcha_def split: prod.splits)
  then show "hd (snd (solveCaptchaWith2Captcha cfg q)) = b"
    and "set (snd (solveCaptchaWith2Captcha cfg q)) = {b}"
    by auto
qed (simp_all add: solveCaptchaWithEZCaptcha_def solveCaptchaWith2Captcha_def)

theorem create_failure_skips_polling_witness:
  "solveCaptchaWithEZCaptcha defaultConfig unreachable = (Inl TransportError, []) \<and>
   solveCaptchaWithEZCaptcha defaultConfig garbled = (Inl DecodeError, []) \<and>
   hd (snd (solveCaptchaWithEZCaptcha defaultConfig (alwaysFailing ''abc'' promptClock))) = ''abc'' \<and>
   solveCaptchaWith2Captcha defaultConfig unreachable = (Inl TransportError, []) \<and>
   solveCaptchaWith2Captcha defaultConfig garbled = (Inl DecodeError, []) \<and>
   hd (snd (solveCaptchaWith2Captcha defaultConfig (alwaysFailing 81 promptClock))) = 81"
  using create_failure_skips_polling [of unreachable defaultConfig "''abc''" unreachable 81]
    create_failure_skips_polling [of garbled defaultConfig "''abc''" garbled 81]
    create_failure_skips_polling
      [of "alwaysFailing ''abc'' promptClock" defaultConfig "''abc''" "alwaysFailing 81 promptClock" 81]
  by (simp add: unreachable_def garbled_def alwaysFailing_simps defaultConfig_simps)

section \<open>The submitter: status codes and the clearance cookie\<close>

text \<open>
  Claim C2, as stated: every 2xx status of the submission response is a success, and the
  rejection error is returned exactly for the other statuses. It is not so: a response
  with status 204 is rejected with "promo submission failed with status code: 204".
\<close>

theorem status_204_is_rejected_counterexample:
  "(200::int) \<le> 204 \<and> (204::int) < 300 \<and>
   submitPromoEntry defaultConfig (directWeb (statusReply 204) acceptingReplies) (statusReply 204)
       ''a@b.c'' ''XYZ'' =
     (Inl (PromoSubmissionFailed 204),
      [\<lparr>Form = [(''Email'', ''a@b.c''), (''g-recaptcha-response'', ''XYZ'')],
        CookieHeader = ''cookieconsent_status=dismiss''\<rparr>])"
  by (simp add: submitPromoEntry_def directWeb_def statusReply_def defaultConfig_simps)

text \<open>
  Claim C2, amended. Once the request was sent and the response body read, the primary
  submission returns the rejection error carrying the response's status code exactly
  when that status is not 200, and it returns an error at all exactly then; status 200
  is the only success. The additional submission does the same with its own error.
\<close>

theorem only_status_200_is_success:
  "(UseProxy cfg \<longrightarrow> proxyURLParses w) \<and> newRequestOK w \<longrightarrow>
     (fst (submitPromoEntry cfg w (Replied resp) email token) =
        Inl (PromoSubmissionFailed (StatusCode resp))) = (StatusCode resp \<noteq> 200) \<and>
     isl (fst (submitPromoEntry cfg w (Replied resp) email token)) = (StatusCode resp \<noteq> 200) \<and>
     (fst (submitPromoEntryWithCookie cfg w (Replied resp) email token clearance) =
        Inl (AdditionalSubmissionFailed (StatusCode resp))) = (StatusCode resp \<noteq> 200) \<and>
     isl (fst (submitPromoEntryWithCookie cfg w (Replied resp) email token clearance)) =
        (StatusCode resp \<noteq> 200)"
  by (auto simp: submitPromoEntry_def submitPromoEntryWithCookie_def Let_def)

theorem only_status_200_is_success_witness:
  "fst (submitPromoEntry defaultConfig (directWeb (statusReply 201) acceptingReplies) (statusReply 201)
          ''a@b.c'' ''XYZ'') = Inl (PromoSubmissionFailed 201) \<and>
   fst (submitPromoEntryWithCookie defaultConfig (directWeb (statusReply 201) acceptingReplies)
          (statusReply 201) ''a@b.c'' ''XYZ'' ''CLR'') = Inl (AdditionalSubmissionFailed 201)"
  using only_status_200_is_success
    [of defaultConfig "directWeb (statusReply 201) acceptingReplies"
        "\<lparr>StatusCode = 201, Cookies = []\<rparr>" "''a@b.c''" "''XYZ''" "''CLR''"]
  by (simp add: directWeb_def statusReply_def defaultConfig_simps)

text \<open>
  Claim C7. A primary submission answered with status 200 returns, as clearance token,
  the value of the \<open>cf_clearance\<close> cookie of the response (the first one in
  \<open>resp.Cookies()\<close>); answered with status 200 and no such cookie it returns the empty
  token, and no error.
\<close>

theorem clearance_cookie_is_returned:
  "(UseProxy cfg \<longrightarrow> proxyURLParses w) \<and> newRequestOK w \<and> StatusCode resp = 200 \<longrightarrow>
     (Cookies resp = before @ c # after \<and> Name c = ''cf_clearance'' \<and>
        (\<forall>d\<in>set before. Name d \<noteq> ''cf_clearance'')
      \<longrightarrow> fst (submitPromoEntry cfg w (Replied resp) email token) = Inr (Value c)) \<and>
     ((\<forall>d\<in>set (Cookies resp). Name d \<noteq> ''cf_clearance'')
      \<longrightarrow> fst (submitPromoEntry cfg w (Replied resp) email token) = Inr '''')"
  by (auto simp: submitPromoEntry_def Let_def findClearance_first findClearance_none)

theorem clearance_cookie_is_returned_witness:
  "fst (submitPromoEntry defaultConfig (directWeb (clearanceReply ''CLR'') acceptingReplies)
          (clearanceReply ''CLR'') ''a@b.c'' ''XYZ'') = Inr ''CLR'' \<and>
   fst (submitPromoEntry defaultConfig (directWeb (statusReply 200) acceptingReplies)
          (statusReply 200) ''a@b.c'' ''XYZ'') = Inr ''''"
  using clearance_cookie_is_returned
    [of defaultConfig "directWeb (clearanceReply ''CLR'') acceptingReplies"
        "\<lparr>StatusCode = 200,
          Cookies = [\<lparr>Name = ''session'', Value = ''s1''\<rparr>,
                     \<lparr>Name = ''cf_clearance'', Value = ''CLR''\<rparr>,
                     \<lparr>Name = ''cf_clearance'', Value = ''later''\<rparr>]\<rparr>"
        "[\<lparr>Name = ''session'', Value = ''s1''\<rparr>]"
        "\<lparr>Name = ''cf_clearance'', Value = ''CLR''\<rparr>"
        "[\<lparr>Name = ''cf_clearance'', Value = ''later''\<rparr>]" "''a@b.c''" "''XYZ''"]
    clearance_cookie_is_returned
    [of defaultConfig "directWeb (statusReply 200) acceptingReplies"
        "\<lparr>StatusCode = 200, Cookies = []\<rparr>" "[]" "\<lparr>Name = ''x'', Value = ''y''\<rparr>" "[]"
        "''a@b.c''" "''XYZ''"]
  by (simp add: directWeb_def statusReply_def clearanceReply_def defaultConfig_simps)

section \<open>The cycle\<close>

text \<open>
  Claim C5. In a cycle whose primary submission succeeds and returns a non-empty
  clearance token, exactly 5 additional submissions are sent and \<open>submitEntry\<close> returns
  \<open>nil\<close>, whatever the replies to the additional submissions are.
\<close>

theorem additional_failures_keep_success:
  "obtainEmail cfg w = Inr email \<and> fst (solveCaptcha cfg w) = Inr token \<and>
   fst (submitPromoEntry cfg (promo w) (primaryReply (promo w)) email token) = Inr clearance \<and>
   clearance \<noteq> ''''
   \<longrightarrow> fst (submitEntry cfg (w\<lparr>promo := (promo w)\<lparr>additionalReply := replies\<rparr>\<rparr>)) = None \<and>
       length (filter isAdditionalEntry
                 (snd (submitEntry cfg (w\<lparr>promo := (promo w)\<lparr>additionalReply := replies\<rparr>\<rparr>)))) = 5"
proof
  let ?w = "w\<lparr>promo := (promo w)\<lparr>additionalReply := replies\<rparr>\<rparr>"
  assume h: "obtainEmail cfg w = Inr email \<and> fst (solveCaptcha cfg w) = Inr token \<and>
   fst (submitPromoEntry cfg (promo w) (primaryReply (promo w)) email token) = Inr clearance \<and>
   clearance \<noteq> ''''"
  obtain polls where p: "solveCaptcha cfg w = (Inr token, polls)"
    using h by (cases "solveCaptcha cfg w") simp
  have e: "obtainEmail cfg ?w = Inr email" and s: "solveCaptcha cfg ?w = (Inr token, polls)"
    using h p by (simp_all add: steps_ignore_additionalReply)
  have a: "fst (submitPromoEntry cfg (promo ?w) (primaryReply (promo ?w)) email token) = Inr clearance"
    using h by (simp add: steps_ignore_additionalReply)
  have "filter isAdditionalEntry polls = []"
    using solveCaptcha_events(1) [of cfg w] p by simp
  then show "fst (submitEntry cfg ?w) = None \<and>
       length (filter isAdditionalEntry (snd (submitEntry cfg ?w))) = 5"
    using h by (simp add: submitEntry_accepted [OF e s a])
qed

theorem additional_failures_keep_success_witness:
  "fst (submitEntry defaultConfig (typedEmailWorld (directWeb (clearanceReply ''CLR'') flakyReplies)))
     = None \<and>
   length (filter isAdditionalEntry
     (snd (submitEntry defaultConfig (typedEmailWorld (directWeb (clearanceReply ''CLR'') flakyReplies)))))
     = 5"
  using additional_failures_keep_success
    [of defaultConfig "typedEmailWorld (directWeb (clearanceReply ''CLR'') acceptingReplies)"
        "''a@b.c''" "''XYZ''" "''CLR''" flakyReplies]
  by (simp add: typedEmailWorld_steps typedEmailWorld_update directWeb_simps
      submitPromoEntry_def clearanceReply_def defaultConfig_simps)

text \<open>
  Claim C6. When the primary submission fails, \<open>submitEntry\<close> returns that error (wrapped
  as "error submitting promo entry"), sends no additional submission and does not call
  \<open>logSubmission\<close>. When the failure is a response whose status is not 200, such as
  403, the error carries that status code and the request of the primary submission is
  the last thing the cycle does.
\<close>

theorem rejected_primary_aborts_cycle:
  "obtainEmail cfg w = Inr email \<and> solveCaptcha cfg w = (Inr token, polls) \<longrightarrow>
     (fst (submitPromoEntry cfg (promo w) (primaryReply (promo w)) email token) = Inl err
      \<longrightarrow> fst (submitEntry cfg w) = Some (ErrorSubmittingPromoEntry err) \<and>
          filter isAdditionalEntry (snd (submitEntry cfg w)) = [] \<and>
          filter isLogSubmission (snd (submitEntry cfg w)) = []) \<and>
     ((UseProxy cfg \<longrightarrow> proxyURLParses (promo w)) \<and> newRequestOK (promo w) \<and>
        primaryReply (promo w) = Replied resp \<and> StatusCode resp \<noteq> 200
      \<longrightarrow> submitEntry cfg w =
            (Some (ErrorSubmittingPromoEntry (PromoSubmissionFailed (StatusCode resp))),
             polls @ [PromoEntry \<lparr>Form = [(''Email'', email), (''g-recaptcha-response'', token)],
                                  CookieHeader = ''cookieconsent_status=dismiss''\<rparr>]))"
proof (intro impI conjI)
  assume h: "obtainEmail cfg w = Inr email \<and> solveCaptcha cfg w = (Inr token, polls)"
  have quiet: "filter isAdditionalEntry polls = []" "filter isLogSubmission polls = []"
    using solveCaptcha_events(1,2) [of cfg w] h by simp_all
  {
    assume f: "fst (submitPromoEntry cfg (promo w) (primaryReply (promo w)) email token) = Inl err"
    then obtain reqs where
      r: "submitPromoEntry cfg (promo w) (primaryReply (promo w)) email token = (Inl err, reqs)"
      by (cases "submitPromoEntry cfg (promo w) (primaryReply (promo w)) email token") simp
    have s: "submitEntry cfg w = (Some (ErrorSubmittingPromoEntry err), polls @ map PromoEntry reqs)"
      using h r by (intro submitEntry_rejected) simp_all
    show "fst (submitEntry cfg w) = Some (ErrorSubmittingPromoEntry err)"
      using s by simp
    show "filter isAdditionalEntry (snd (submitEntry cfg w)) = []"
      using s quiet by (simp add: filter_empty_conv)
    show "filter isLogSubmission (snd (submitEntry cfg w)) = []"
      using s quiet by (simp add: filter_empty_conv)
  }
  assume g: "(UseProxy cfg \<longrightarrow> proxyURLParses (promo w)) \<and> newRequestOK (promo w) \<and>
        primaryReply (promo w) = Replied resp \<and> StatusCode resp \<noteq> 200"
  then have "submitPromoEntry cfg (promo w) (primaryReply (promo w)) email token =
      (Inl (PromoSubmissionFailed (StatusCode resp)),
       [\<lparr>Form = [(''Email'', email), (''g-recaptcha-response'', token)],
         CookieHeader = ''cookieconsent_status=dismiss''\<rparr>])"
    by (auto simp: submitPromoEntry_def)
  then show "submitEntry cfg w =
            (Some (ErrorSubmittingPromoEntry (PromoSubmissionFailed (StatusCode resp))),
             polls @ [PromoEntry \<lparr>Form = [(''Email'', email), (''g-recaptcha-response'', token)],
                                  CookieHeader = ''cookieconsent_status=dismiss''\<rparr>])"
    using h submitEntry_rejected [of cfg w email token polls] by simp
qed

theorem rejected_primary_aborts_cycle_witness:
  "submitEntry defaultConfig (typedEmailWorld (directWeb (statusReply 403) acceptingReplies)) =
     (Some (ErrorSubmittingPromoEntry (PromoSubmissionFailed 403)),
      [GetEZCaptchaTaskResult ''abc'', GetEZCaptchaTaskResult ''abc'', GetEZCaptchaTaskResult ''abc'',
       PromoEntry \<lparr>Form = [(''Email'', ''a@b.c''), (''g-recaptcha-response'', ''XYZ'')],
                   CookieHeader = ''cookieconsent_status=dismiss''\<rparr>]) \<and>
   filter isAdditionalEntry
     (snd (submitEntry defaultConfig (typedEmailWorld (directWeb (statusReply 403) acceptingReplies)))) = [] \<and>
   filter isLogSubmission
     (snd (submitEntry defaultConfig (typedEmailWorld (directWeb (statusReply 403) acceptingReplies)))) = []"
  using rejected_primary_aborts_cycle
    [of defaultConfig "typedEmailWorld (directWeb (statusReply 403) acceptingReplies)" "''a@b.c''"
        "''XYZ''" "[GetEZCaptchaTaskResult ''abc'', GetEZCaptchaTaskResult ''abc'',
                    GetEZCaptchaTaskResult ''abc'']"
        "PromoSubmissionFailed 403" "\<lparr>StatusCode = 403, Cookies = []\<rparr>"]
  by (simp add: typedEmailWorld_steps directWeb_simps statusReply_def defaultConfig_simps
      submitPromoEntry_def)

text \<open>
  Claim C8, as stated: each additional submission carries a fresh CAPTCHA token, not the
  one the primary submission of the cycle used. It does not: in this cycle the primary
  submission and the five additional ones all send the token "XYZ" of the one solve.
\<close>

theorem additional_entries_reuse_captcha_token_counterexample:
  "submitEntry defaultConfig (typedEmailWorld (directWeb (clearanceReply ''CLR'') acceptingReplies)) =
     (None,
      [GetEZCaptchaTaskResult ''abc'', GetEZCaptchaTaskResult ''abc'', GetEZCaptchaTaskResult ''abc'',
       PromoEntry \<lparr>Form = [(''Email'', ''a@b.c''), (''g-recaptcha-response'', ''XYZ'')],
                   CookieHeader = ''cookieconsent_status=dismiss''\<rparr>,
       AdditionalEntry \<lparr>Form = [(''Email'', ''a@b.c''), (''g-recaptcha-response'', ''XYZ'')],
                        CookieHeader = ''cookieconsent_status=dismiss; cf_clearance=CLR''\<rparr>,
       AdditionalEntry \<lparr>Form = [(''Email'', ''a@b.c''), (''g-recaptcha-response'', ''XYZ'')],
                        CookieHeader = ''cookieconsent_status=dismiss; cf_clearance=CLR''\<rparr>,
       AdditionalEntry \<lparr>Form = [(''Email'', ''a@b.c''), (''g-recaptcha-response'', ''XYZ'')],
                        CookieHeader = ''cookieconsent_status=dismiss; cf_clearance=CLR''\<rparr>,
       AdditionalEntry \<lparr>Form = [(''Email'', ''a@b.c''), (''g-recaptcha-response'', ''XYZ'')],
                        CookieHeader = ''cookieconsent_status=dismiss; cf_clearance=CLR''\<rparr>,
       AdditionalEntry \<lparr>Form = [(''Email'', ''a@b.c''), (''g-recaptcha-response'', ''XYZ'')],
                        CookieHeader = ''cookieconsent_status=dismiss; cf_clearance=CLR''\<rparr>,
       LogSubmission ''a@b.c''])"
proof -
  have "fst (submitPromoEntry defaultConfig
               (promo (typedEmailWorld (directWeb (clearanceReply ''CLR'') acceptingReplies)))
               (primaryReply (promo (typedEmailWorld (directWeb (clearanceReply ''CLR'') acceptingReplies))))
               ''a@b.c'' ''XYZ'') = Inr ''CLR''"
    by (simp add: typedEmailWorld_steps directWeb_simps submitPromoEntry_def clearanceReply_def
        defaultConfig_simps)
  from submitEntry_accepted [OF typedEmailWorld_steps(1) typedEmailWorld_steps(2) this]
  show ?thesis
    by (simp add: numeral_eq_Suc)
qed

text \<open>
  Claim C8, amended. In a cycle whose primary submission returns a non-empty clearance
  token, there is one primary submission, and each of the 5 additional submissions
  carries the same email address and the same CAPTCHA token as it (no new solve), with
  the clearance token of the primary submission in its \<open>Cookie\<close> header.
\<close>

theorem additional_entries_carry_same_token_and_clearance:
  "obtainEmail cfg w = Inr email \<and> fst (solveCaptcha cfg w) = Inr token \<and>
   fst (submitPromoEntry cfg (promo w) (primaryReply (promo w)) email token) = Inr clearance \<and>
   clearance \<noteq> ''''
   \<longrightarrow> filter isPromoEntry (snd (submitEntry cfg w)) =
         [PromoEntry \<lparr>Form = [(''Email'', email), (''g-recaptcha-response'', token)],
                      CookieHeader = ''cookieconsent_status=dismiss''\<rparr>] \<and>
       filter isAdditionalEntry (snd (submitEntry cfg w)) =
         replicate 5
           (AdditionalEntry
              \<lparr>Form = [(''Email'', email), (''g-recaptcha-response'', token)],
               CookieHeader = ''cookieconsent_status=dismiss; cf_clearance='' @ clearance\<rparr>)"
proof
  assume h: "obtainEmail cfg w = Inr email \<and> fst (solveCaptcha cfg w) = Inr token \<and>
   fst (submitPromoEntry cfg (promo w) (primaryReply (promo w)) email token) = Inr clearance \<and>
   clearance \<noteq> ''''"
  obtain polls where p: "solveCaptcha cfg w = (Inr token, polls)"
    using h by (cases "solveCaptcha cfg w") simp
  have quiet: "filter isAdditionalEntry polls = []" "filter isPromoEntry polls = []"
    using solveCaptcha_events(1,3) [of cfg w] p by simp_all
  have e: "obtainEmail cfg w = Inr email"
    and a: "fst (submitPromoEntry cfg (promo w) (primaryReply (promo w)) email token) = Inr clearance"
    using h by simp_all
  show "filter isPromoEntry (snd (submitEntry cfg w)) =
         [PromoEntry \<lparr>Form = [(''Email'', email), (''g-recaptcha-response'', token)],
                      CookieHeader = ''cookieconsent_status=dismiss''\<rparr>] \<and>
       filter isAdditionalEntry (snd (submitEntry cfg w)) =
         replicate 5
           (AdditionalEntry
              \<lparr>Form = [(''Email'', email), (''g-recaptcha-response'', token)],
               CookieHeader = ''cookieconsent_status=dismiss; cf_clearance='' @ clearance\<rparr>)"
    using h quiet by (simp add: submitEntry_accepted [OF e p a] filter_empty_conv)
qed

theorem additional_entries_carry_same_token_and_clearance_witness:
  "filter isAdditionalEntry
     (snd (submitEntry defaultConfig (typedEmailWorld (directWeb (clearanceReply ''K9'') flakyReplies)))) =
     replicate 5
       (AdditionalEntry \<lparr>Form = [(''Email'', ''a@b.c''), (''g-recaptcha-response'', ''XYZ'')],
                         CookieHeader = ''cookieconsent_status=dismiss; cf_clearance=K9''\<rparr>) \<and>
   filter isPromoEntry
     (snd (submitEntry defaultConfig (typedEmailWorld (directWeb (clearanceReply ''K9'') flakyReplies)))) =
     [PromoEntry \<lparr>Form = [(''Email'', ''a@b.c''), (''g-recaptcha-response'', ''XYZ'')],
                  CookieHeader = ''cookieconsent_status=dismiss''\<rparr>]"
  using additional_entries_carry_same_token_and_clearance
    [of defaultConfig "typedEmailWorld (directWeb (clearanceReply ''K9'') flakyReplies)"
        "''a@b.c''" "''XYZ''" "''K9''"]
  by (simp add: typedEmailWorld_steps directWeb_simps submitPromoEntry_def clearanceReply_def
      defaultConfig_simps)

end
